theory Spec2Isabelle
  imports Main
begin

section \<open>Encodings of a package\<close>

text \<open>
  The handlers of \<^verbatim>\<open>pkger/http_server.go\<close> choose among four encoding tags. The tags are
  declared in the parser of the package; only their names are used here.
\<close>

datatype Encoding = EncodingJSON | EncodingJsonnet | EncodingSource | EncodingYAML

subsection \<open>Library functions on strings\<close>

text \<open>
  Go strings are byte sequences, as \<^typ>\<open>string\<close> is. \<^verbatim>\<open>strings.ToLower\<close> adds the distance
  between \<^verbatim>\<open>'a'\<close> and \<^verbatim>\<open>'A'\<close> to every byte between \<^verbatim>\<open>'A'\<close> and \<^verbatim>\<open>'Z'\<close>. Bytes beyond
  ASCII are left as they are: the library maps them rune by rune, and the only runes
  it sends to ASCII letters go to \<^verbatim>\<open>k\<close> and \<^verbatim>\<open>i\<close>, letters that no encoding name compared
  below contains.
\<close>

definition toLowerByte :: "char \<Rightarrow> char" where
  "toLowerByte c =
     (if of_char (CHR ''A'') \<le> (of_char c :: nat) \<and> (of_char c :: nat) \<le> of_char (CHR ''Z'')
      then char_of ((of_char c :: nat) + (of_char (CHR ''a'') - of_char (CHR ''A'')))
      else c)"

definition ToLower :: "string \<Rightarrow> string" where
  "ToLower s = map toLowerByte s"

text \<open>
  \<^verbatim>\<open>path.Ext\<close> walks from the last byte towards the first, stops at a slash, and returns
  the suffix that starts at the first dot it meets; without a dot in the last element
  of the path the extension is empty. \<open>Ext_loop p n\<close> is the loop with \<open>i = n - 1\<close>.
\<close>

fun Ext_loop :: "string \<Rightarrow> nat \<Rightarrow> string" where
  "Ext_loop p 0 = []"
| "Ext_loop p (Suc i) =
     (if p ! i = CHR ''/'' then []
      else if p ! i = CHR ''.'' then drop i p
      else Ext_loop p i)"

definition Ext :: "string \<Rightarrow> string" where
  "Ext p = Ext_loop p (length p)"

subsection \<open>The encoding of a remote package\<close>

record PkgRemote =
  URL :: string
  ContentType :: string

definition Encoding :: "PkgRemote \<Rightarrow> Encoding" where
  "Encoding p =
     (let ct = ToLower (ContentType p);
          urlBase = Ext (URL p)
      in if ct = ''jsonnet'' \<or> urlBase = ''.jsonnet'' then EncodingJsonnet
         else if ct = ''json'' \<or> urlBase = ''.json'' then EncodingJSON
         else if ct = ''yml'' \<or> ct = ''yaml'' \<or> urlBase = ''.yml'' \<or> urlBase = ''.yaml''
           then EncodingYAML
         else EncodingSource)"

subsection \<open>The encoding named by the request headers\<close>

text \<open>
  \<^verbatim>\<open>http.Header\<close> maps a canonical header name to the values sent for it; \<^verbatim>\<open>Get\<close> returns
  the first value, and the empty string when there is none. The name looked up below,
  \<^verbatim>\<open>Content-Type\<close>, is in canonical form already.
\<close>

type_synonym Header = "string \<rightharpoonup> string list"

definition Header_Get :: "Header \<Rightarrow> string \<Rightarrow> string" where
  "Header_Get h key = (case h key of None \<Rightarrow> [] | Some [] \<Rightarrow> [] | Some (v # vs) \<Rightarrow> v)"

definition pkgEncoding :: "Header \<Rightarrow> Encoding" where
  "pkgEncoding headers =
     (let contentType = Header_Get headers ''Content-Type''
      in if contentType = ''application/x-jsonnet'' then EncodingJsonnet
         else if contentType = ''text/yml'' \<or> contentType = ''application/x-yaml''
           then EncodingYAML
         else EncodingJSON)"

section \<open>Errors\<close>

text \<open>
  A Go \<^verbatim>\<open>error\<close> is either an \<^verbatim>\<open>influxdb.Error\<close>, with a code, a message and an optional
  wrapped error, or a value of some other dynamic type, kept opaque. A nil error is
  \<open>None\<close> of an optional error. The codes are constants of the root package, known
  here by name. A message built by \<^verbatim>\<open>fmt.Sprintf\<close> is kept as the format and its arguments.
\<close>

datatype Code = EInternal | EInvalid | EUnprocessableEntity | EConflict

datatype 'x error = Error Code "'x msg" "'x error option" | Opaque 'x
and 'x msg = Msg string | Sprintf string "'x fmtarg list"
and 'x fmtarg = ArgString string | ArgError "'x error"

definition newDecodeErr :: "string \<Rightarrow> 'x error \<Rightarrow> 'x error" where
  "newDecodeErr encoding err =
     Error EInvalid (Sprintf ''unable to unmarshal %s; Err: %v'' [ArgString encoding, ArgError err])
       (Some err)"

section \<open>Requests, responses and the collaborators of the server\<close>

record 'rc ReqCreatePkg =
  OrgIDs :: "string list"
  Resources :: "'rc list"

record ReqApplyPkg =
  DryRun :: bool
  OrgID :: string
  Remote :: PkgRemote
  RawPkg :: string
  Secrets :: "string \<rightharpoonup> string"

text \<open>
  The body of an apply response. \<^verbatim>\<open>Errors\<close> is tagged \<^verbatim>\<open>omitempty\<close>: a nil and an empty
  slice both leave the field out of the encoded body, and both are \<open>[]\<close> here.
\<close>

record ('sum, 'diff, 'v) RespApplyPkg =
  Diff :: 'diff
  Summary :: 'sum
  Errors :: "'v list"

text \<open>
  What is read of an \<^verbatim>\<open>http.Request\<close>: its headers, its body, and the outcome of asking
  its context for the authorizer and the authorizer for its user id.
\<close>

record ('x, 'id) request =
  Header :: Header
  Body :: string
  Authorizer :: "'x error + 'id"

text \<open>The two sources a package is parsed from, and the options given to the service.\<close>

datatype ReaderFn = FromHTTPRequest string | FromReader string

datatype ('rc, 'id) CreatePkgSetFn =
  CreateWithExistingResources "'rc list" | CreateWithAllOrgResources 'id

datatype ApplyOptFn = ApplyWithSecrets "string \<rightharpoonup> string"

datatype encoder = JSONEnc | YAMLEnc

datatype ('sum, 'diff, 'v, 'obj) resp =
  ApplyBody "('sum, 'diff, 'v) RespApplyPkg" | CreateBody "'obj list"

text \<open>
  A handler acts on the service, the logger, the error handler and the response
  writer. Its run is recorded as the sequence of these calls, in the order made.
\<close>

datatype ('x, 'id, 'pkg, 'sum, 'diff, 'v, 'rc, 'obj) event =
    SvcCreatePkg "('rc, 'id) CreatePkgSetFn list"
  | SvcDryRun 'id 'id 'pkg
  | SvcApply 'id 'id 'pkg ApplyOptFn
  | LoggerError string "'x error"
  | HandleHTTPError "'x error"
  | HeaderSet string string
  | WriteHeader nat
  | Encode encoder "('sum, 'diff, 'v, 'obj) resp"

text \<open>
  The parts the handlers use and this file does not define: the parser of identifiers,
  the package parser and its classification of errors, the decoders and encoders, the
  service behind the \<^verbatim>\<open>SVC\<close> interface (a state \<open>'s\<close> threaded through its calls) and the
  status the injected error handler answers an error with.
\<close>

record ('x, 'id, 'pkg, 'sum, 'diff, 'v, 'rc, 'obj, 's) env =
  IDFromString :: "string \<Rightarrow> 'x error + 'id"
  Parse :: "Encoding \<Rightarrow> ReaderFn \<Rightarrow> 'x error + 'pkg"
  isParseErr :: "'x error \<Rightarrow> bool"
  ValidationErrs :: "'x error \<Rightarrow> 'v list option"
  Objects :: "'pkg \<Rightarrow> 'obj list"
  Encoding_String :: "Encoding \<Rightarrow> string"
  json_Decode_ReqCreatePkg :: "string \<Rightarrow> 'x error + 'rc ReqCreatePkg"
  jsonnet_Decode :: "string \<Rightarrow> 'x error + ReqApplyPkg"
  yaml_Decode :: "string \<Rightarrow> 'x error + ReqApplyPkg"
  json_Decode :: "string \<Rightarrow> 'x error + ReqApplyPkg"
  encodeErr :: "encoder \<Rightarrow> ('sum, 'diff, 'v, 'obj) resp \<Rightarrow> 'x error option"
  svc_CreatePkg :: "'s \<Rightarrow> ('rc, 'id) CreatePkgSetFn list \<Rightarrow> ('x error + 'pkg) \<times> 's"
  svc_DryRun :: "'s \<Rightarrow> 'id \<Rightarrow> 'id \<Rightarrow> 'pkg \<Rightarrow> ('sum \<times> 'diff \<times> 'x error option) \<times> 's"
  svc_Apply :: "'s \<Rightarrow> 'id \<Rightarrow> 'id \<Rightarrow> 'pkg \<Rightarrow> ApplyOptFn \<Rightarrow> ('sum \<times> 'x error option) \<times> 's"
  errStatus :: "'x error \<Rightarrow> nat"

text \<open>
  Modelled from the spec: \<^verbatim>\<open>IsParseErr\<close> is declared in the parser of the package, which
  is not among the sources; the spec gives it as the predicate that classifies an error
  as a parse error. A nil error is no error and so no parse error; on the other errors
  the predicate is the collaborator \<open>isParseErr\<close>.
\<close>

definition IsParseErr ::
  "('x, 'id, 'pkg, 'sum, 'diff, 'v, 'rc, 'obj, 's) env \<Rightarrow> 'x error option \<Rightarrow> bool" where
  "IsParseErr env err = (case err of None \<Rightarrow> False | Some e \<Rightarrow> isParseErr env e)"

text \<open>
  \<^verbatim>\<open>convertParseErr\<close> asserts that the error has the interface \<^verbatim>\<open>ParseError\<close>; \<open>ValidationErrs\<close>
  is \<open>None\<close> where the assertion fails and the result of the method otherwise. The
  assertion fails on nil.
\<close>

definition convertParseErr ::
  "('x, 'id, 'pkg, 'sum, 'diff, 'v, 'rc, 'obj, 's) env \<Rightarrow> 'x error option \<Rightarrow> 'v list" where
  "convertParseErr env err =
     (case err of
        None \<Rightarrow> []
      | Some e \<Rightarrow> (case ValidationErrs env e of None \<Rightarrow> [] | Some errs \<Rightarrow> errs))"

section \<open>Writing a response\<close>

definition encResp ::
  "('x, 'id, 'pkg, 'sum, 'diff, 'v, 'rc, 'obj, 's) env \<Rightarrow> encoder \<Rightarrow> nat \<Rightarrow>
   ('sum, 'diff, 'v, 'obj) resp \<Rightarrow> ('x, 'id, 'pkg, 'sum, 'diff, 'v, 'rc, 'obj) event list" where
  "encResp env enc code res =
     [WriteHeader code, Encode enc res] @
     (case encodeErr env enc res of
        None \<Rightarrow> []
      | Some err \<Rightarrow>
          [HandleHTTPError
             (Error EInternal (Sprintf ''unable to marshal; Err: %v'' [ArgError err]) (Some err))])"

definition encJSONResp ::
  "('x, 'id, 'pkg, 'sum, 'diff, 'v, 'rc, 'obj, 's) env \<Rightarrow> nat \<Rightarrow>
   ('sum, 'diff, 'v, 'obj) resp \<Rightarrow> ('x, 'id, 'pkg, 'sum, 'diff, 'v, 'rc, 'obj) event list" where
  "encJSONResp env code res = encResp env JSONEnc code res"

section \<open>The export handler\<close>

text \<open>
  The loop of \<^verbatim>\<open>createPkg\<close> over the organisation ids of the request: an id that does not
  parse is passed over, one that parses appends an option.
\<close>

fun createPkg_loop ::
  "('x, 'id, 'pkg, 'sum, 'diff, 'v, 'rc, 'obj, 's) env \<Rightarrow> string list \<Rightarrow>
   ('rc, 'id) CreatePkgSetFn list \<Rightarrow> ('rc, 'id) CreatePkgSetFn list" where
  "createPkg_loop env [] opts = opts"
| "createPkg_loop env (orgIDStr # rest) opts =
     (case IDFromString env orgIDStr of
        Inl err \<Rightarrow> createPkg_loop env rest opts
      | Inr orgID \<Rightarrow> createPkg_loop env rest (opts @ [CreateWithAllOrgResources orgID]))"

text \<open>
  Closing the request body is not recorded. A nil slice of objects is the empty list,
  so replacing a nil response by an empty one leaves the list as it is.
\<close>

definition createPkg ::
  "('x, 'id, 'pkg, 'sum, 'diff, 'v, 'rc, 'obj, 's) env \<Rightarrow> ('x, 'id) request \<Rightarrow> 's \<Rightarrow>
   ('x, 'id, 'pkg, 'sum, 'diff, 'v, 'rc, 'obj) event list \<times> 's" where
  "createPkg env r s =
     (let encoding = pkgEncoding (Header r) in
      case json_Decode_ReqCreatePkg env (Body r) of
        Inl err \<Rightarrow> ([HandleHTTPError (newDecodeErr ''json'' err)], s)
      | Inr reqBody \<Rightarrow>
          if length (Resources reqBody) = 0 \<and> length (OrgIDs reqBody) = 0 then
            ([HandleHTTPError
                (Error EUnprocessableEntity
                   (Msg ''at least 1 resource or 1 org id must be provided'') None)], s)
          else
            let opts = createPkg_loop env (OrgIDs reqBody)
                         [CreateWithExistingResources (Resources reqBody)]
            in (case svc_CreatePkg env s opts of
                 (Inl err, s') \<Rightarrow>
                   ([SvcCreatePkg opts, LoggerError ''failed to create pkg'' err,
                     HandleHTTPError err], s')
               | (Inr newPkg, s') \<Rightarrow>
                   let resp = Objects env newPkg in
                   ([SvcCreatePkg opts] @
                    (case encoding of
                       EncodingYAML \<Rightarrow>
                         [HeaderSet ''Content-Type'' ''application/x-yaml''] @
                         encResp env YAMLEnc 200 (CreateBody resp)
                     | _ \<Rightarrow>
                         [HeaderSet ''Content-Type'' ''application/json; charset=utf-8''] @
                         encResp env JSONEnc 200 (CreateBody resp)), s')))"

section \<open>The apply handler\<close>

definition Pkg ::
  "('x, 'id, 'pkg, 'sum, 'diff, 'v, 'rc, 'obj, 's) env \<Rightarrow> ReqApplyPkg \<Rightarrow> Encoding \<Rightarrow>
   'x error + 'pkg" where
  "Pkg env r encoding =
     (if URL (Remote r) \<noteq> [] then Parse env (Encoding (Remote r)) (FromHTTPRequest (URL (Remote r)))
      else Parse env encoding (FromReader (RawPkg r)))"

definition decodeWithEncoding ::
  "('x, 'id, 'pkg, 'sum, 'diff, 'v, 'rc, 'obj, 's) env \<Rightarrow> ('x, 'id) request \<Rightarrow>
   Encoding \<times> ('x error + ReqApplyPkg)" where
  "decodeWithEncoding env r =
     (let encoding = pkgEncoding (Header r);
          dec = (case encoding of
                   EncodingJsonnet \<Rightarrow> jsonnet_Decode env
                 | EncodingYAML \<Rightarrow> yaml_Decode env
                 | _ \<Rightarrow> json_Decode env)
      in (encoding, dec (Body r)))"

definition applyPkg ::
  "('x, 'id, 'pkg, 'sum, 'diff, 'v, 'rc, 'obj, 's) env \<Rightarrow> ('x, 'id) request \<Rightarrow> 's \<Rightarrow>
   ('x, 'id, 'pkg, 'sum, 'diff, 'v, 'rc, 'obj) event list \<times> 's" where
  "applyPkg env r s =
     (case decodeWithEncoding env r of
        (encoding, Inl err) \<Rightarrow>
          ([HandleHTTPError (newDecodeErr (Encoding_String env encoding) err)], s)
      | (encoding, Inr reqBody) \<Rightarrow>
     (case IDFromString env (OrgID reqBody) of
        Inl err \<Rightarrow>
          ([HandleHTTPError
              (Error EConflict
                 (Sprintf ''invalid organization ID provided: %q'' [ArgString (OrgID reqBody)])
                 None)], s)
      | Inr orgID \<Rightarrow>
     (case Authorizer r of
        Inl err \<Rightarrow> ([HandleHTTPError err], s)
      | Inr userID \<Rightarrow>
     (case Pkg env reqBody encoding of
        Inl err \<Rightarrow>
          ([HandleHTTPError
              (Error EInvalid (Msg ''failed to parse package from provided URL'') (Some err))], s)
      | Inr parsedPkg \<Rightarrow>
     (case svc_DryRun env s orgID userID parsedPkg of
        ((summ, diff, err), s1) \<Rightarrow>
          if IsParseErr env err then
            ([SvcDryRun orgID userID parsedPkg] @
             encJSONResp env 422
               (ApplyBody \<lparr>Diff = diff, Summary = summ, Errors = convertParseErr env err\<rparr>), s1)
          else
     (case err of
        Some e \<Rightarrow>
          ([SvcDryRun orgID userID parsedPkg, LoggerError ''failed to dry run pkg'' e,
            HandleHTTPError e], s1)
      | None \<Rightarrow>
          if DryRun reqBody then
            ([SvcDryRun orgID userID parsedPkg] @
             encJSONResp env 200 (ApplyBody \<lparr>Diff = diff, Summary = summ, Errors = []\<rparr>), s1)
          else
     (case svc_Apply env s1 orgID userID parsedPkg (ApplyWithSecrets (Secrets reqBody)) of
        ((summ', err'), s2) \<Rightarrow>
          if err' \<noteq> None \<and> \<not> IsParseErr env err' then
            ([SvcDryRun orgID userID parsedPkg,
              SvcApply orgID userID parsedPkg (ApplyWithSecrets (Secrets reqBody)),
              LoggerError ''failed to apply pkg'' (the err'), HandleHTTPError (the err')], s2)
          else
            ([SvcDryRun orgID userID parsedPkg,
              SvcApply orgID userID parsedPkg (ApplyWithSecrets (Secrets reqBody))] @
             encJSONResp env 201
               (ApplyBody \<lparr>Diff = diff, Summary = summ', Errors = convertParseErr env err'\<rparr>),
             s2))))))))"

section \<open>Reading a run\<close>

text \<open>
  The status of a response is fixed by the first write of its header: the code given
  to \<^verbatim>\<open>WriteHeader\<close>, or the status the error handler answers its error with.
\<close>

fun respStatus ::
  "('x error \<Rightarrow> nat) \<Rightarrow> ('x, 'id, 'pkg, 'sum, 'diff, 'v, 'rc, 'obj) event list \<Rightarrow> nat option" where
  "respStatus h [] = None"
| "respStatus h (WriteHeader code # evs) = Some code"
| "respStatus h (HandleHTTPError err # evs) = Some (h err)"
| "respStatus h (ev # evs) = respStatus h evs"

fun isSvcCall :: "('x, 'id, 'pkg, 'sum, 'diff, 'v, 'rc, 'obj) event \<Rightarrow> bool" where
  "isSvcCall (SvcCreatePkg opts) = True"
| "isSvcCall (SvcDryRun orgID userID pkg) = True"
| "isSvcCall (SvcApply orgID userID pkg opt) = True"
| "isSvcCall ev = False"

fun isApplyCall :: "('x, 'id, 'pkg, 'sum, 'diff, 'v, 'rc, 'obj) event \<Rightarrow> bool" where
  "isApplyCall (SvcApply orgID userID pkg opt) = True"
| "isApplyCall ev = False"

fun isEncode :: "('x, 'id, 'pkg, 'sum, 'diff, 'v, 'rc, 'obj) event \<Rightarrow> bool" where
  "isEncode (Encode enc res) = True"
| "isEncode ev = False"

section \<open>Test doubles\<close>

text \<open>
  A fake environment to run the handlers on concrete requests, in the manner of the
  fakes a Go test hands to \<^verbatim>\<open>NewHTTPServer\<close>. Identifiers, packages, summaries and diffs
  are numbers and strings. Every decoder returns the request body it is built with.
  The package is the text it is parsed from; the service counts its calls, and answers
  the packages named \<^verbatim>\<open>invalid\<close>, \<^verbatim>\<open>boom\<close>, \<^verbatim>\<open>partial\<close> and \<^verbatim>\<open>fail\<close> with errors.
\<close>

definition fakeParseErr :: "string error" where
  "fakeParseErr = Opaque ''parse error''"

definition fakeErrStatus :: "string error \<Rightarrow> nat" where
  "fakeErrStatus err =
     (case err of
        Error EInvalid m w \<Rightarrow> 400
      | Error EUnprocessableEntity m w \<Rightarrow> 422
      | Error EConflict m w \<Rightarrow> 422
      | _ \<Rightarrow> 500)"

definition fakeEnv ::
  "string ReqCreatePkg \<Rightarrow> ReqApplyPkg \<Rightarrow>
   (string, nat, string, string, string, string, string, string, nat) env" where
  "fakeEnv creq areq =
     \<lparr>IDFromString = (\<lambda>str. if str = ''0000000000000001'' then Inr 1
                          else if str = ''0000000000000002'' then Inr 2
                          else Inl (Opaque ''invalid ID'')),
      Parse = (\<lambda>enc src. case src of FromHTTPRequest url \<Rightarrow> Inr url | FromReader raw \<Rightarrow> Inr raw),
      isParseErr = (\<lambda>err. err = fakeParseErr),
      ValidationErrs = (\<lambda>err. if err = fakeParseErr then Some [''bucket name is required''] else None),
      Objects = (\<lambda>pkg. [pkg]),
      Encoding_String = (\<lambda>enc. case enc of EncodingJSON \<Rightarrow> ''json'' | EncodingJsonnet \<Rightarrow> ''jsonnet''
                                 | EncodingSource \<Rightarrow> ''source'' | EncodingYAML \<Rightarrow> ''yaml''),
      json_Decode_ReqCreatePkg = (\<lambda>body. Inr creq),
      jsonnet_Decode = (\<lambda>body. Inr areq),
      yaml_Decode = (\<lambda>body. Inr areq),
      json_Decode = (\<lambda>body. Inr areq),
      encodeErr = (\<lambda>enc res. None),
      svc_CreatePkg = (\<lambda>s opts. (Inr ''exported'', Suc s)),
      svc_DryRun = (\<lambda>s orgID userID pkg.
         ((''summary'', ''diff'',
           if pkg = ''invalid'' then Some fakeParseErr
           else if pkg = ''boom'' then Some (Opaque ''internal'')
           else None), Suc s)),
      svc_Apply = (\<lambda>s orgID userID pkg opt.
         ((''applied'',
           if pkg = ''partial'' then Some fakeParseErr
           else if pkg = ''fail'' then Some (Opaque ''internal'')
           else None), Suc s)),
      errStatus = fakeErrStatus\<rparr>"

definition fakeRequest :: "(string, nat) request" where
  "fakeRequest = \<lparr>Header = Map.empty, Body = ''{}'', Authorizer = Inr 7\<rparr>"

definition fakeCreateBody :: "string list \<Rightarrow> string list \<Rightarrow> string ReqCreatePkg" where
  "fakeCreateBody orgIDs resources = \<lparr>OrgIDs = orgIDs, Resources = resources\<rparr>"

definition fakeApplyBody :: "bool \<Rightarrow> string \<Rightarrow> string \<Rightarrow> ReqApplyPkg" where
  "fakeApplyBody dryRun orgID raw =
     \<lparr>DryRun = dryRun, OrgID = orgID, Remote = \<lparr>URL = [], ContentType = []\<rparr>,
      RawPkg = raw, Secrets = Map.empty\<rparr>"

text \<open>The environment of an apply request and that of an export request.\<close>

definition fakeApplyEnv ::
  "bool \<Rightarrow> string \<Rightarrow> string \<Rightarrow>
   (string, nat, string, string, string, string, string, string, nat) env" where
  "fakeApplyEnv dryRun orgID raw = fakeEnv (fakeCreateBody [] []) (fakeApplyBody dryRun orgID raw)"

definition fakeCreateEnv ::
  "string list \<Rightarrow> string list \<Rightarrow>
   (string, nat, string, string, string, string, string, string, nat) env" where
  "fakeCreateEnv orgIDs resources =
     fakeEnv (fakeCreateBody orgIDs resources) (fakeApplyBody False [] [])"

section \<open>Facts about the building blocks\<close>

lemma encResp_status: "respStatus h (encResp env enc code res) = Some code"
  by (simp add: encResp_def)

lemma encResp_svc: "filter isSvcCall (encResp env enc code res) = []"
  by (simp add: encResp_def split: option.split)

lemma encResp_encoded: "filter isEncode (encResp env enc code res) = [Encode enc res]"
  by (simp add: encResp_def split: option.split)

lemma encResp_no_apply: "ev \<in> set (encResp env enc code res) \<Longrightarrow> \<not> isApplyCall ev"
  by (auto simp add: encResp_def split: option.splits)

text \<open>
  The loop over the organisation ids appends, in order, one option for every id that
  parses, and nothing for the others.
\<close>

lemma createPkg_loop_eq:
  "createPkg_loop env orgIDs opts =
     opts @ map CreateWithAllOrgResources
       (List.map_filter
          (\<lambda>str. case IDFromString env str of Inl err \<Rightarrow> None | Inr orgID \<Rightarrow> Some orgID) orgIDs)"
proof (induction orgIDs arbitrary: opts)
  case Nil
  show ?case by simp
next
  case (Cons orgIDStr rest)
  show ?case
  proof (cases "IDFromString env orgIDStr")
    case (Inl err)
    with Cons show ?thesis by simp
  next
    case (Inr orgID)
    with Cons show ?thesis by simp
  qed
qed

text \<open>The fake environment decodes every body to the request it was built with.\<close>

lemma fake_decode:
  "decodeWithEncoding (fakeApplyEnv dryRun orgID raw) fakeRequest =
     (EncodingJSON, Inr (fakeApplyBody dryRun orgID raw))"
  by (simp add: decodeWithEncoding_def pkgEncoding_def Header_Get_def fakeApplyEnv_def
      fakeEnv_def fakeRequest_def)

lemma fake_id: "IDFromString (fakeApplyEnv dryRun orgID raw) ''0000000000000001'' = Inr 1"
  by (simp add: fakeApplyEnv_def fakeEnv_def)

lemma fake_user: "Authorizer fakeRequest = Inr (7::nat)"
  by (simp add: fakeRequest_def)

lemma fake_pkg:
  "Pkg (fakeApplyEnv dryRun orgID raw) (fakeApplyBody dryRun' orgID' raw') encoding = Inr raw'"
  by (simp add: Pkg_def fakeApplyEnv_def fakeEnv_def fakeApplyBody_def)

lemma fake_status: "errStatus (fakeApplyEnv dryRun orgID raw) = fakeErrStatus"
  by (simp add: fakeApplyEnv_def fakeEnv_def)

section \<open>The encoding of a remote package\<close>

text \<open>
  Where the URL of a remote has none of the four extensions, a content type that names
  an encoding, in any mix of upper and lower case, decides the encoding.
\<close>

lemma Encoding_content_type_without_extension:
  assumes "Ext (URL p) \<notin> {''.jsonnet'', ''.json'', ''.yml'', ''.yaml''}"
  shows "(ToLower (ContentType p) = ''jsonnet'' \<longrightarrow> Encoding p = EncodingJsonnet) \<and>
    (ToLower (ContentType p) = ''json'' \<longrightarrow> Encoding p = EncodingJSON) \<and>
    (ToLower (ContentType p) = ''yml'' \<or> ToLower (ContentType p) = ''yaml'' \<longrightarrow>
       Encoding p = EncodingYAML)"
  using assms by (simp add: Encoding_def Let_def)

text \<open>
  C1. An explicit content type of a remote that names an encoding is to decide the
  encoding, whatever the extension of the URL. The code tests the content type and the
  extension together, one encoding at a time: for the content type \<^verbatim>\<open>yaml\<close> and a URL
  that ends in \<^verbatim>\<open>.json\<close> the extension is met first, and the encoding is JSON.
\<close>

theorem Encoding_yaml_content_type_json_url:
  "Encoding \<lparr>URL = ''https://example.com/pkg.json'', ContentType = ''yaml''\<rparr> = EncodingJSON"
  by code_simp

section \<open>The source of the package of an apply request\<close>

text \<open>
  C2. A request with a non-empty remote URL has its package parsed from that URL, with
  the encoding of the remote, whatever encoding the headers name; a request with an
  empty URL has its raw package parsed with the encoding handed in, which the apply
  handler takes from the request headers.
\<close>

theorem Pkg_source:
  "(URL (Remote reqBody) \<noteq> [] \<longrightarrow>
      Pkg env reqBody encoding =
        Parse env (Encoding (Remote reqBody)) (FromHTTPRequest (URL (Remote reqBody))) \<and>
      Pkg env reqBody encoding = Pkg env reqBody encoding') \<and>
   (URL (Remote reqBody) = [] \<longrightarrow>
      Pkg env reqBody encoding = Parse env encoding (FromReader (RawPkg reqBody))) \<and>
   fst (decodeWithEncoding env r) = pkgEncoding (Header r)"
  by (simp add: Pkg_def decodeWithEncoding_def Let_def)

theorem Pkg_source_witness:
  "Pkg (fakeApplyEnv True [] [])
     (fakeApplyBody True [] ''raw''\<lparr>Remote := \<lparr>URL = ''https://example.com/pkg.yml'', ContentType = []\<rparr>\<rparr>)
     EncodingJSON =
     Parse (fakeApplyEnv True [] []) EncodingYAML (FromHTTPRequest ''https://example.com/pkg.yml'') \<and>
   Pkg (fakeApplyEnv True [] []) (fakeApplyBody True [] ''raw'') EncodingJsonnet =
     Parse (fakeApplyEnv True [] []) EncodingJsonnet (FromReader ''raw'')"
proof -
  let ?remote = "\<lparr>URL = ''https://example.com/pkg.yml'', ContentType = []\<rparr>"
  have enc: "Encoding ?remote = EncodingYAML"
    by code_simp
  have url: "URL (Remote (fakeApplyBody True [] ''raw''\<lparr>Remote := ?remote\<rparr>)) = ''https://example.com/pkg.yml''"
    by simp
  have none: "URL (Remote (fakeApplyBody True [] ''raw'')) = []"
    by (simp add: fakeApplyBody_def)
  from Pkg_source [of "fakeApplyBody True [] ''raw''\<lparr>Remote := ?remote\<rparr>" "fakeApplyEnv True [] []" EncodingJSON]
    Pkg_source [of "fakeApplyBody True [] ''raw''" "fakeApplyEnv True [] []" EncodingJsonnet]
  show ?thesis
    by (simp add: url none enc fakeApplyBody_def)
qed

section \<open>The encoding named by the headers\<close>

text \<open>
  C7. The encoding of a request is read off the first value of its \<^verbatim>\<open>Content-Type\<close>
  header, compared byte for byte: \<^verbatim>\<open>application/x-jsonnet\<close> gives Jsonnet, \<^verbatim>\<open>text/yml\<close> and
  \<^verbatim>\<open>application/x-yaml\<close> give YAML, any other value gives JSON, and so does a request
  without the header. The result is always an encoding, never an error.
\<close>

theorem pkgEncoding_table:
  "(Header_Get headers ''Content-Type'' = ''application/x-jsonnet'' \<longrightarrow>
      pkgEncoding headers = EncodingJsonnet) \<and>
   (Header_Get headers ''Content-Type'' = ''text/yml'' \<or>
    Header_Get headers ''Content-Type'' = ''application/x-yaml'' \<longrightarrow>
      pkgEncoding headers = EncodingYAML) \<and>
   (Header_Get headers ''Content-Type'' \<notin>
      {''application/x-jsonnet'', ''text/yml'', ''application/x-yaml''} \<longrightarrow>
      pkgEncoding headers = EncodingJSON) \<and>
   (headers ''Content-Type'' = None \<longrightarrow> pkgEncoding headers = EncodingJSON)"
  by (simp add: pkgEncoding_def Header_Get_def)

theorem pkgEncoding_table_witness:
  "pkgEncoding [''Content-Type'' \<mapsto> [''application/x-jsonnet'']] = EncodingJsonnet \<and>
   pkgEncoding [''Content-Type'' \<mapsto> [''text/yml'']] = EncodingYAML \<and>
   pkgEncoding [''Content-Type'' \<mapsto> [''application/x-yaml'', ''application/json'']] = EncodingYAML \<and>
   pkgEncoding [''Content-Type'' \<mapsto> [''Text/YML'']] = EncodingJSON \<and>
   pkgEncoding [''Content-Type'' \<mapsto> [''APPLICATION/X-JSONNET'']] = EncodingJSON \<and>
   pkgEncoding [''Accept'' \<mapsto> [''text/yml'']] = EncodingJSON \<and>
   pkgEncoding Map.empty = EncodingJSON"
  using pkgEncoding_table [of "[''Content-Type'' \<mapsto> [''application/x-jsonnet'']]"]
    pkgEncoding_table [of "[''Content-Type'' \<mapsto> [''text/yml'']]"]
    pkgEncoding_table [of "[''Content-Type'' \<mapsto> [''application/x-yaml'', ''application/json'']]"]
    pkgEncoding_table [of "[''Content-Type'' \<mapsto> [''Text/YML'']]"]
    pkgEncoding_table [of "[''Content-Type'' \<mapsto> [''APPLICATION/X-JSONNET'']]"]
    pkgEncoding_table [of "[''Accept'' \<mapsto> [''text/yml'']]"]
    pkgEncoding_table [of Map.empty]
  by (simp add: Header_Get_def)


section \<open>The apply handler\<close>

text \<open>
  C3. A request that asks for a dry run only, and whose dry run returns no error, is
  answered with status 200 and the JSON encoding of the diff and the summary of the
  dry run, with an empty (hence omitted) errors field. The dry run is the only call
  made to the service: the apply capability is not invoked, and the service is left
  in the state the dry run left it in.
\<close>

theorem applyPkg_dry_run_only:
  assumes "decodeWithEncoding env r = (encoding, Inr reqBody)"
    and "IDFromString env (OrgID reqBody) = Inr orgID"
    and "Authorizer r = Inr userID"
    and "Pkg env reqBody encoding = Inr parsedPkg"
    and "svc_DryRun env s orgID userID parsedPkg = ((summ, diff, None), s1)"
    and "DryRun reqBody"
  shows "respStatus (errStatus env) (fst (applyPkg env r s)) = Some 200 \<and>
    filter isEncode (fst (applyPkg env r s)) =
      [Encode JSONEnc (ApplyBody \<lparr>Diff = diff, Summary = summ, Errors = []\<rparr>)] \<and>
    filter isSvcCall (fst (applyPkg env r s)) = [SvcDryRun orgID userID parsedPkg] \<and>
    (\<forall>ev \<in> set (fst (applyPkg env r s)). \<not> isApplyCall ev) \<and>
    snd (applyPkg env r s) = s1"
  using assms
  by (simp add: applyPkg_def IsParseErr_def encJSONResp_def encResp_def split: option.split)

theorem applyPkg_dry_run_only_witness:
  "DryRun (fakeApplyBody True ''0000000000000001'' ''bucket'') \<and>
   svc_DryRun (fakeApplyEnv True ''0000000000000001'' ''bucket'') 0 1 7 ''bucket'' =
     ((''summary'', ''diff'', None), 1) \<and>
   respStatus fakeErrStatus
     (fst (applyPkg (fakeApplyEnv True ''0000000000000001'' ''bucket'') fakeRequest 0)) = Some 200 \<and>
   filter isEncode
     (fst (applyPkg (fakeApplyEnv True ''0000000000000001'' ''bucket'') fakeRequest 0)) =
     [Encode JSONEnc (ApplyBody \<lparr>Diff = ''diff'', Summary = ''summary'', Errors = []\<rparr>)] \<and>
   filter isSvcCall
     (fst (applyPkg (fakeApplyEnv True ''0000000000000001'' ''bucket'') fakeRequest 0)) =
     [SvcDryRun 1 7 ''bucket''] \<and>
   snd (applyPkg (fakeApplyEnv True ''0000000000000001'' ''bucket'') fakeRequest 0) = 1"
proof -
  let ?a = "fakeApplyBody True ''0000000000000001'' ''bucket''"
  let ?env = "fakeApplyEnv True ''0000000000000001'' ''bucket''"
  have i: "IDFromString ?env (OrgID ?a) = Inr 1"
    by (simp add: fake_id fakeApplyBody_def)
  have d: "svc_DryRun ?env 0 1 7 ''bucket'' = ((''summary'', ''diff'', None), 1)"
    by (simp add: fakeApplyEnv_def fakeEnv_def)
  have f: "DryRun ?a"
    by (simp add: fakeApplyBody_def)
  from applyPkg_dry_run_only [OF fake_decode i fake_user fake_pkg d f] show ?thesis
    using d f by (simp add: fake_status)
qed

text \<open>
  C4. When the dry run returns an error classified as a parse error, the answer has
  status 422 and its body carries the diff and the summary the dry run returned,
  together with the validation errors \<^verbatim>\<open>convertParseErr\<close> extracts from the error. The
  dry run is the only call made to the service: the apply capability is not invoked.
\<close>

theorem applyPkg_dry_run_parse_error:
  assumes "decodeWithEncoding env r = (encoding, Inr reqBody)"
    and "IDFromString env (OrgID reqBody) = Inr orgID"
    and "Authorizer r = Inr userID"
    and "Pkg env reqBody encoding = Inr parsedPkg"
    and "svc_DryRun env s orgID userID parsedPkg = ((summ, diff, err), s1)"
    and "IsParseErr env err"
  shows "respStatus (errStatus env) (fst (applyPkg env r s)) = Some 422 \<and>
    filter isEncode (fst (applyPkg env r s)) =
      [Encode JSONEnc
         (ApplyBody \<lparr>Diff = diff, Summary = summ, Errors = convertParseErr env err\<rparr>)] \<and>
    filter isSvcCall (fst (applyPkg env r s)) = [SvcDryRun orgID userID parsedPkg] \<and>
    (\<forall>ev \<in> set (fst (applyPkg env r s)). \<not> isApplyCall ev) \<and>
    snd (applyPkg env r s) = s1"
  using assms
  by (simp add: applyPkg_def encJSONResp_def encResp_def split: option.split)

theorem applyPkg_dry_run_parse_error_witness:
  "IsParseErr (fakeApplyEnv False ''0000000000000001'' ''invalid'') (Some fakeParseErr) \<and>
   svc_DryRun (fakeApplyEnv False ''0000000000000001'' ''invalid'') 0 1 7 ''invalid'' =
     ((''summary'', ''diff'', Some fakeParseErr), 1) \<and>
   respStatus fakeErrStatus
     (fst (applyPkg (fakeApplyEnv False ''0000000000000001'' ''invalid'') fakeRequest 0)) = Some 422 \<and>
   filter isEncode
     (fst (applyPkg (fakeApplyEnv False ''0000000000000001'' ''invalid'') fakeRequest 0)) =
     [Encode JSONEnc
        (ApplyBody \<lparr>Diff = ''diff'', Summary = ''summary'', Errors = [''bucket name is required'']\<rparr>)] \<and>
   filter isSvcCall
     (fst (applyPkg (fakeApplyEnv False ''0000000000000001'' ''invalid'') fakeRequest 0)) =
     [SvcDryRun 1 7 ''invalid''] \<and>
   snd (applyPkg (fakeApplyEnv False ''0000000000000001'' ''invalid'') fakeRequest 0) = 1"
proof -
  let ?a = "fakeApplyBody False ''0000000000000001'' ''invalid''"
  let ?env = "fakeApplyEnv False ''0000000000000001'' ''invalid''"
  have i: "IDFromString ?env (OrgID ?a) = Inr 1"
    by (simp add: fake_id fakeApplyBody_def)
  have d: "svc_DryRun ?env 0 1 7 ''invalid'' = ((''summary'', ''diff'', Some fakeParseErr), 1)"
    by (simp add: fakeApplyEnv_def fakeEnv_def)
  have p: "IsParseErr ?env (Some fakeParseErr)"
    by (simp add: IsParseErr_def fakeApplyEnv_def fakeEnv_def)
  have c: "convertParseErr ?env (Some fakeParseErr) = [''bucket name is required'']"
    by (simp add: convertParseErr_def fakeApplyEnv_def fakeEnv_def)
  from applyPkg_dry_run_parse_error [OF fake_decode i fake_user fake_pkg d p] show ?thesis
    using d p by (simp add: fake_status c)
qed

text \<open>
  C5. When the request is not a dry run and the apply call returns an error classified
  as a parse error, the answer has status 201, as it has when the apply call returns
  no error. Its body carries the diff of the dry run, the summary returned by the apply
  call in place of that of the dry run, and the validation errors \<^verbatim>\<open>convertParseErr\<close>
  extracts from the error of the apply call.
\<close>

theorem applyPkg_apply_parse_error:
  assumes "decodeWithEncoding env r = (encoding, Inr reqBody)"
    and "IDFromString env (OrgID reqBody) = Inr orgID"
    and "Authorizer r = Inr userID"
    and "Pkg env reqBody encoding = Inr parsedPkg"
    and "svc_DryRun env s orgID userID parsedPkg = ((summ, diff, None), s1)"
    and "\<not> DryRun reqBody"
    and "svc_Apply env s1 orgID userID parsedPkg (ApplyWithSecrets (Secrets reqBody)) =
           ((summ', err'), s2)"
    and "err' = None \<or> IsParseErr env err'"
  shows "respStatus (errStatus env) (fst (applyPkg env r s)) = Some 201 \<and>
    filter isEncode (fst (applyPkg env r s)) =
      [Encode JSONEnc
         (ApplyBody \<lparr>Diff = diff, Summary = summ', Errors = convertParseErr env err'\<rparr>)] \<and>
    filter isSvcCall (fst (applyPkg env r s)) =
      [SvcDryRun orgID userID parsedPkg,
       SvcApply orgID userID parsedPkg (ApplyWithSecrets (Secrets reqBody))] \<and>
    snd (applyPkg env r s) = s2"
  using assms
  by (auto simp add: applyPkg_def IsParseErr_def encJSONResp_def encResp_def split: option.split)

theorem applyPkg_apply_parse_error_witness:
  "\<not> DryRun (fakeApplyBody False ''0000000000000001'' ''partial'') \<and>
   IsParseErr (fakeApplyEnv False ''0000000000000001'' ''partial'') (Some fakeParseErr) \<and>
   svc_Apply (fakeApplyEnv False ''0000000000000001'' ''partial'') 1 1 7 ''partial''
     (ApplyWithSecrets Map.empty) = ((''applied'', Some fakeParseErr), 2) \<and>
   respStatus fakeErrStatus
     (fst (applyPkg (fakeApplyEnv False ''0000000000000001'' ''partial'') fakeRequest 0)) = Some 201 \<and>
   filter isEncode
     (fst (applyPkg (fakeApplyEnv False ''0000000000000001'' ''partial'') fakeRequest 0)) =
     [Encode JSONEnc
        (ApplyBody \<lparr>Diff = ''diff'', Summary = ''applied'', Errors = [''bucket name is required'']\<rparr>)] \<and>
   filter isSvcCall
     (fst (applyPkg (fakeApplyEnv False ''0000000000000001'' ''partial'') fakeRequest 0)) =
     [SvcDryRun 1 7 ''partial'', SvcApply 1 7 ''partial'' (ApplyWithSecrets Map.empty)] \<and>
   snd (applyPkg (fakeApplyEnv False ''0000000000000001'' ''partial'') fakeRequest 0) = 2 \<and>
   respStatus fakeErrStatus
     (fst (applyPkg (fakeApplyEnv False ''0000000000000001'' ''bucket'') fakeRequest 0)) = Some 201 \<and>
   filter isEncode
     (fst (applyPkg (fakeApplyEnv False ''0000000000000001'' ''bucket'') fakeRequest 0)) =
     [Encode JSONEnc (ApplyBody \<lparr>Diff = ''diff'', Summary = ''applied'', Errors = []\<rparr>)]"
proof -
  let ?a = "fakeApplyBody False ''0000000000000001'' ''partial''"
  let ?env = "fakeApplyEnv False ''0000000000000001'' ''partial''"
  let ?b = "fakeApplyBody False ''0000000000000001'' ''bucket''"
  let ?clean = "fakeApplyEnv False ''0000000000000001'' ''bucket''"
  have i: "IDFromString ?env (OrgID ?a) = Inr 1"
    by (simp add: fake_id fakeApplyBody_def)
  have d: "svc_DryRun ?env 0 1 7 ''partial'' = ((''summary'', ''diff'', None), 1)"
    by (simp add: fakeApplyEnv_def fakeEnv_def)
  have f: "\<not> DryRun ?a"
    by (simp add: fakeApplyBody_def)
  have a: "svc_Apply ?env 1 1 7 ''partial'' (ApplyWithSecrets (Secrets ?a)) =
             ((''applied'', Some fakeParseErr), 2)"
    by (simp add: fakeApplyEnv_def fakeEnv_def)
  have p: "IsParseErr ?env (Some fakeParseErr)"
    by (simp add: IsParseErr_def fakeApplyEnv_def fakeEnv_def)
  have c: "convertParseErr ?env (Some fakeParseErr) = [''bucket name is required'']"
    by (simp add: convertParseErr_def fakeApplyEnv_def fakeEnv_def)
  have s: "Secrets ?a = Map.empty"
    by (simp add: fakeApplyBody_def)
  have i': "IDFromString ?clean (OrgID ?b) = Inr 1"
    by (simp add: fake_id fakeApplyBody_def)
  have d': "svc_DryRun ?clean 0 1 7 ''bucket'' = ((''summary'', ''diff'', None), 1)"
    by (simp add: fakeApplyEnv_def fakeEnv_def)
  have f': "\<not> DryRun ?b"
    by (simp add: fakeApplyBody_def)
  have a': "svc_Apply ?clean 1 1 7 ''bucket'' (ApplyWithSecrets (Secrets ?b)) =
             ((''applied'', None), 2)"
    by (simp add: fakeApplyEnv_def fakeEnv_def)
  have c': "convertParseErr ?clean None = []"
    by (simp add: convertParseErr_def)
  from applyPkg_apply_parse_error [OF fake_decode i fake_user fake_pkg d f a disjI2 [OF p]]
    applyPkg_apply_parse_error [OF fake_decode i' fake_user fake_pkg d' f' a' disjI1 [OF refl]]
  show ?thesis
    using f p a by (simp add: fake_status c c' s)
qed


text \<open>
  C6. When the dry run returns an error that is not nil and not classified as a parse
  error, the handler logs it and hands it to the error handler, and does nothing else:
  the dry run is the only call made to the service, and no body with a diff or a
  summary is encoded. The same holds of such an error returned by the apply call, after
  which no further call is made either.
\<close>

theorem applyPkg_hard_failure:
  assumes "decodeWithEncoding env r = (encoding, Inr reqBody)"
    and "IDFromString env (OrgID reqBody) = Inr orgID"
    and "Authorizer r = Inr userID"
    and "Pkg env reqBody encoding = Inr parsedPkg"
    and "svc_DryRun env s orgID userID parsedPkg = ((summ, diff, err), s1)"
  shows "(\<forall>e. err = Some e \<and> \<not> IsParseErr env (Some e) \<longrightarrow>
            applyPkg env r s =
              ([SvcDryRun orgID userID parsedPkg, LoggerError ''failed to dry run pkg'' e,
                HandleHTTPError e], s1)) \<and>
         (\<forall>e summ' s2.
            err = None \<and> \<not> DryRun reqBody \<and>
            svc_Apply env s1 orgID userID parsedPkg (ApplyWithSecrets (Secrets reqBody)) =
              ((summ', Some e), s2) \<and>
            \<not> IsParseErr env (Some e) \<longrightarrow>
            applyPkg env r s =
              ([SvcDryRun orgID userID parsedPkg,
                SvcApply orgID userID parsedPkg (ApplyWithSecrets (Secrets reqBody)),
                LoggerError ''failed to apply pkg'' e, HandleHTTPError e], s2))"
  using assms
  by (simp add: applyPkg_def IsParseErr_def)

theorem applyPkg_hard_failure_witness:
  "\<not> IsParseErr (fakeApplyEnv False ''0000000000000001'' ''boom'') (Some (Opaque ''internal'')) \<and>
   applyPkg (fakeApplyEnv False ''0000000000000001'' ''boom'') fakeRequest 0 =
     ([SvcDryRun 1 7 ''boom'', LoggerError ''failed to dry run pkg'' (Opaque ''internal''),
       HandleHTTPError (Opaque ''internal'')], 1) \<and>
   applyPkg (fakeApplyEnv False ''0000000000000001'' ''fail'') fakeRequest 0 =
     ([SvcDryRun 1 7 ''fail'', SvcApply 1 7 ''fail'' (ApplyWithSecrets Map.empty),
       LoggerError ''failed to apply pkg'' (Opaque ''internal''),
       HandleHTTPError (Opaque ''internal'')], 2)"
proof -
  let ?a = "fakeApplyBody False ''0000000000000001'' ''boom''"
  let ?env = "fakeApplyEnv False ''0000000000000001'' ''boom''"
  let ?b = "fakeApplyBody False ''0000000000000001'' ''fail''"
  let ?env' = "fakeApplyEnv False ''0000000000000001'' ''fail''"
  have i: "IDFromString ?env (OrgID ?a) = Inr 1"
    by (simp add: fake_id fakeApplyBody_def)
  have d: "svc_DryRun ?env 0 1 7 ''boom'' = ((''summary'', ''diff'', Some (Opaque ''internal'')), 1)"
    by (simp add: fakeApplyEnv_def fakeEnv_def)
  have n: "\<not> IsParseErr ?env (Some (Opaque ''internal''))"
    by (simp add: IsParseErr_def fakeApplyEnv_def fakeEnv_def fakeParseErr_def)
  have i': "IDFromString ?env' (OrgID ?b) = Inr 1"
    by (simp add: fake_id fakeApplyBody_def)
  have d': "svc_DryRun ?env' 0 1 7 ''fail'' = ((''summary'', ''diff'', None), 1)"
    by (simp add: fakeApplyEnv_def fakeEnv_def)
  have f': "\<not> DryRun ?b"
    by (simp add: fakeApplyBody_def)
  have s': "Secrets ?b = Map.empty"
    by (simp add: fakeApplyBody_def)
  have a': "svc_Apply ?env' 1 1 7 ''fail'' (ApplyWithSecrets (Secrets ?b)) =
              ((''applied'', Some (Opaque ''internal'')), 2)"
    by (simp add: fakeApplyEnv_def fakeEnv_def)
  have n': "\<not> IsParseErr ?env' (Some (Opaque ''internal''))"
    by (simp add: IsParseErr_def fakeApplyEnv_def fakeEnv_def fakeParseErr_def)
  from applyPkg_hard_failure [OF fake_decode i fake_user fake_pkg d]
    applyPkg_hard_failure [OF fake_decode i' fake_user fake_pkg d']
  show ?thesis
    using n f' a' n' by (simp add: s')
qed

text \<open>
  C9. When the organisation id of an apply request does not parse, the handler hands an
  error of code \<^verbatim>\<open>EConflict\<close> to the error handler and returns: no call is made to the
  service, so neither the dry run nor the apply capability is invoked. The status of
  the answer is the one the injected error handler gives that error: a 4xx status with
  every error handler that answers the code \<^verbatim>\<open>EConflict\<close> in the range of client errors.
\<close>

theorem applyPkg_invalid_org:
  assumes "decodeWithEncoding env r = (encoding, Inr reqBody)"
    and "IDFromString env (OrgID reqBody) = Inl err"
  shows "applyPkg env r s =
      ([HandleHTTPError
          (Error EConflict
             (Sprintf ''invalid organization ID provided: %q'' [ArgString (OrgID reqBody)])
             None)], s) \<and>
    filter isSvcCall (fst (applyPkg env r s)) = [] \<and>
    respStatus (errStatus env) (fst (applyPkg env r s)) =
      Some (errStatus env
              (Error EConflict
                 (Sprintf ''invalid organization ID provided: %q'' [ArgString (OrgID reqBody)])
                 None)) \<and>
    ((\<forall>m w. 400 \<le> errStatus env (Error EConflict m w) \<and>
             errStatus env (Error EConflict m w) < 500) \<longrightarrow>
     (\<exists>code. respStatus (errStatus env) (fst (applyPkg env r s)) = Some code \<and>
        400 \<le> code \<and> code < 500))"
  using assms
  by (simp add: applyPkg_def)

theorem applyPkg_invalid_org_witness:
  "IDFromString (fakeApplyEnv False ''not-an-id'' ''bucket'') ''not-an-id'' = Inl (Opaque ''invalid ID'') \<and>
   (\<forall>m w. 400 \<le> fakeErrStatus (Error EConflict m w) \<and> fakeErrStatus (Error EConflict m w) < 500) \<and>
   applyPkg (fakeApplyEnv False ''not-an-id'' ''bucket'') fakeRequest 0 =
     ([HandleHTTPError
         (Error EConflict (Sprintf ''invalid organization ID provided: %q'' [ArgString ''not-an-id''])
            None)], 0) \<and>
   filter isSvcCall (fst (applyPkg (fakeApplyEnv False ''not-an-id'' ''bucket'') fakeRequest 0)) = [] \<and>
   respStatus fakeErrStatus (fst (applyPkg (fakeApplyEnv False ''not-an-id'' ''bucket'') fakeRequest 0)) =
     Some 422"
proof -
  let ?a = "fakeApplyBody False ''not-an-id'' ''bucket''"
  let ?env = "fakeApplyEnv False ''not-an-id'' ''bucket''"
  have i: "IDFromString ?env (OrgID ?a) = Inl (Opaque ''invalid ID'')"
    by (simp add: fakeApplyEnv_def fakeEnv_def fakeApplyBody_def)
  have o: "OrgID ?a = ''not-an-id''"
    by (simp add: fakeApplyBody_def)
  have h: "\<forall>m w. 400 \<le> fakeErrStatus (Error EConflict m w) \<and> fakeErrStatus (Error EConflict m w) < 500"
    by (simp add: fakeErrStatus_def)
  from applyPkg_invalid_org [OF fake_decode i, of 0] show ?thesis
    using i h by (simp add: o fake_status fakeErrStatus_def)
qed

section \<open>The export handler\<close>

text \<open>
  C8. When the decoded body of an export request has neither resources nor organisation
  ids, the handler hands an error of code \<^verbatim>\<open>EUnprocessableEntity\<close> to the error handler
  and returns: the service is not called. The status of the answer is the one the
  injected error handler gives that error: 422 with every error handler that answers
  the code \<^verbatim>\<open>EUnprocessableEntity\<close> with 422.
\<close>

theorem createPkg_nothing_to_export:
  assumes "json_Decode_ReqCreatePkg env (Body r) = Inr reqBody"
    and "Resources reqBody = []"
    and "OrgIDs reqBody = []"
  shows "createPkg env r s =
      ([HandleHTTPError
          (Error EUnprocessableEntity
             (Msg ''at least 1 resource or 1 org id must be provided'') None)], s) \<and>
    filter isSvcCall (fst (createPkg env r s)) = [] \<and>
    respStatus (errStatus env) (fst (createPkg env r s)) =
      Some (errStatus env
              (Error EUnprocessableEntity
                 (Msg ''at least 1 resource or 1 org id must be provided'') None)) \<and>
    ((\<forall>m w. errStatus env (Error EUnprocessableEntity m w) = 422) \<longrightarrow>
     respStatus (errStatus env) (fst (createPkg env r s)) = Some 422)"
  using assms
  by (simp add: createPkg_def)

theorem createPkg_nothing_to_export_witness:
  "(\<forall>m w. fakeErrStatus (Error EUnprocessableEntity m w) = 422) \<and>
   createPkg (fakeCreateEnv [] []) fakeRequest 0 =
     ([HandleHTTPError
         (Error EUnprocessableEntity
            (Msg ''at least 1 resource or 1 org id must be provided'') None)], 0) \<and>
   filter isSvcCall (fst (createPkg (fakeCreateEnv [] []) fakeRequest 0)) = [] \<and>
   respStatus fakeErrStatus (fst (createPkg (fakeCreateEnv [] []) fakeRequest 0)) = Some 422"
proof -
  have d: "json_Decode_ReqCreatePkg (fakeCreateEnv [] []) (Body fakeRequest) = Inr (fakeCreateBody [] [])"
    by (simp add: fakeCreateEnv_def fakeEnv_def)
  have r: "Resources (fakeCreateBody [] [] :: string ReqCreatePkg) = []"
    by (simp add: fakeCreateBody_def)
  have o: "OrgIDs (fakeCreateBody [] [] :: string ReqCreatePkg) = []"
    by (simp add: fakeCreateBody_def)
  have e: "errStatus (fakeCreateEnv [] []) = fakeErrStatus"
    by (simp add: fakeCreateEnv_def fakeEnv_def)
  have h: "\<forall>m w. fakeErrStatus (Error EUnprocessableEntity m w) = 422"
    by (simp add: fakeErrStatus_def)
  from createPkg_nothing_to_export [OF d r o, of 0] show ?thesis
    using h by (simp add: e)
qed

text \<open>
  C10. In the export handler an organisation id that does not parse raises no error
  and adds no option. Whenever the request has a resource or an organisation id, the
  service is called once, with the option for the resources followed by one option
  for each organisation id that parses, in order; and when that call succeeds the
  answer has status 200, however many ids did not parse.
\<close>

theorem createPkg_skips_malformed_org_ids:
  assumes "json_Decode_ReqCreatePkg env (Body r) = Inr reqBody"
    and "Resources reqBody \<noteq> [] \<or> OrgIDs reqBody \<noteq> []"
  shows "filter isSvcCall (fst (createPkg env r s)) =
      [SvcCreatePkg
         (CreateWithExistingResources (Resources reqBody) #
          map CreateWithAllOrgResources
            (List.map_filter
               (\<lambda>str. case IDFromString env str of Inl err \<Rightarrow> None | Inr orgID \<Rightarrow> Some orgID)
               (OrgIDs reqBody)))] \<and>
    (\<forall>newPkg s'.
       svc_CreatePkg env s
         (CreateWithExistingResources (Resources reqBody) #
          map CreateWithAllOrgResources
            (List.map_filter
               (\<lambda>str. case IDFromString env str of Inl err \<Rightarrow> None | Inr orgID \<Rightarrow> Some orgID)
               (OrgIDs reqBody))) = (Inr newPkg, s') \<longrightarrow>
       respStatus (errStatus env) (fst (createPkg env r s)) = Some 200)"
  using assms
  by (auto simp add: createPkg_def createPkg_loop_eq Let_def encResp_def
      split: sum.split prod.split Encoding.split option.split)

theorem createPkg_skips_malformed_org_ids_witness:
  "IDFromString (fakeCreateEnv [''not-an-id'', ''zz''] [''bucket'']) ''not-an-id'' =
     Inl (Opaque ''invalid ID'') \<and>
   IDFromString (fakeCreateEnv [''not-an-id'', ''zz''] [''bucket'']) ''zz'' =
     Inl (Opaque ''invalid ID'') \<and>
   filter isSvcCall (fst (createPkg (fakeCreateEnv [''not-an-id'', ''zz''] [''bucket'']) fakeRequest 0)) =
     [SvcCreatePkg [CreateWithExistingResources [''bucket'']]] \<and>
   respStatus fakeErrStatus
     (fst (createPkg (fakeCreateEnv [''not-an-id'', ''zz''] [''bucket'']) fakeRequest 0)) = Some 200 \<and>
   filter isSvcCall
     (fst (createPkg (fakeCreateEnv [''not-an-id'', ''0000000000000002'', ''zz''] []) fakeRequest 0)) =
     [SvcCreatePkg [CreateWithExistingResources [], CreateWithAllOrgResources 2]]"
proof -
  let ?env = "fakeCreateEnv [''not-an-id'', ''zz''] [''bucket'']"
  let ?c = "fakeCreateBody [''not-an-id'', ''zz''] [''bucket'']"
  let ?env' = "fakeCreateEnv [''not-an-id'', ''0000000000000002'', ''zz''] []"
  let ?c' = "fakeCreateBody [''not-an-id'', ''0000000000000002'', ''zz''] []"
  have d: "json_Decode_ReqCreatePkg ?env (Body fakeRequest) = Inr ?c"
    by (simp add: fakeCreateEnv_def fakeEnv_def)
  have n: "Resources ?c \<noteq> [] \<or> OrgIDs ?c \<noteq> []"
    by (simp add: fakeCreateBody_def)
  have d': "json_Decode_ReqCreatePkg ?env' (Body fakeRequest) = Inr ?c'"
    by (simp add: fakeCreateEnv_def fakeEnv_def)
  have n': "Resources ?c' \<noteq> [] \<or> OrgIDs ?c' \<noteq> []"
    by (simp add: fakeCreateBody_def)
  have i: "IDFromString ?env = (\<lambda>str. if str = ''0000000000000001'' then Inr 1
                          else if str = ''0000000000000002'' then Inr 2
                          else Inl (Opaque ''invalid ID''))"
    by (simp add: fakeCreateEnv_def fakeEnv_def)
  have i': "IDFromString ?env' = (\<lambda>str. if str = ''0000000000000001'' then Inr 1
                          else if str = ''0000000000000002'' then Inr 2
                          else Inl (Opaque ''invalid ID''))"
    by (simp add: fakeCreateEnv_def fakeEnv_def)
  have c: "svc_CreatePkg ?env = (\<lambda>s opts. (Inr ''exported'', Suc s))"
    by (simp add: fakeCreateEnv_def fakeEnv_def)
  have e: "errStatus ?env = fakeErrStatus"
    by (simp add: fakeCreateEnv_def fakeEnv_def)
  from createPkg_skips_malformed_org_ids [OF d n, of 0]
    createPkg_skips_malformed_org_ids [OF d' n', of 0]
  show ?thesis
    by (simp add: i i' c e fakeCreateBody_def)
qed


end
